theory Spec2Isabelle
  imports Main
begin

section \<open>The S3 adapter of remotely-save (src/remoteForS3.ts)\<close>

text \<open>
  The module talks to three collaborators: the S3 client of the AWS SDK, the local vault,
  and the cipher. Each call to one of them may change the collaborator and may throw.
  A call is therefore a function on a world, returning either the exception or the value
  together with the world after the call. Every command handed to the S3 client is appended
  to the log \<open>requests\<close> of the world, so that what was sent, with which key and in which
  order, can be read off afterwards.
\<close>

subsection \<open>Values of the source\<close>

type_synonym bytes = "nat list"

text \<open>
  What an async function of the module can reject with: \<open>Error\<close> and \<open>TypeError\<close> are the
  two kinds the module throws itself (\<open>throw Error(...)\<close>, \<open>throw TypeError(...)\<close>, or a
  property read on \<open>undefined\<close>); \<open>External\<close> is whatever a collaborator threw, passed on
  unchanged.
\<close>

datatype exn = Error string | TypeError string | External string

record S3Config =
  s3Endpoint :: string
  s3Region :: string
  s3AccessKeyID :: string
  s3SecretAccessKey :: string
  s3BucketName :: string

text \<open>
  \<open>_Object\<close> of the SDK: every member is optional there. \<open>LastModified\<close> is a \<open>Date\<close>,
  kept as its \<open>valueOf()\<close>, the epoch milliseconds.
\<close>

record S3ObjectType =
  Key :: "string option"
  LastModified :: "int option"
  Size :: "int option"
  ETag :: "string option"

record RemoteItem =
  key :: "string option"
  lastModified :: int
  size :: "int option"
  remoteType :: string
  etag :: "string option"

record HeadObjectCommandOutput =
  ho_LastModified :: "int option"
  ho_ContentLength :: "int option"
  ho_ETag :: "string option"

record ListObjectsV2CommandInput =
  Bucket :: string
  Prefix :: "string option"
  ContinuationToken :: "string option"

text \<open>\<open>$metadata\<close> of a response of the SDK.\<close>

record ResponseMetadata =
  httpStatusCode :: "int option"

record ListObjectsV2CommandOutput =
  lo_metadata :: ResponseMetadata
  Contents :: "S3ObjectType list option"
  IsTruncated :: "bool option"
  NextContinuationToken :: "string option"

text \<open>The three shapes a \<open>GetObject\<close> body is tested for, and anything else.\<close>

datatype body =
  Readable "bytes list" "string option"
| ReadableStream "string + bytes"
| Blob "string + bytes"
| OtherBody string

record HeadBucketCommandOutput =
  hb_metadata :: "ResponseMetadata option"

text \<open>
  The commands the module builds. Arguments in the order of the source's object literals:
  Bucket, Key; for a put also Body, ContentType; for \<open>Upload\<close> (lib-storage) queueSize,
  partSize, leavePartsOnError, then Bucket, Key, Body, ContentType.
\<close>

datatype request =
  HeadObjectCommand string string
| PutObjectCommand string string bytes string
| Upload nat nat bool string string bytes string
| ListObjectsV2Command ListObjectsV2CommandInput
| GetObjectCommand string string
| DeleteObjectCommand string "string option"
| HeadBucketCommand string

subsection \<open>Collaborators\<close>

text \<open>
  The S3 client: what the service answers to each command, as a function of the state
  \<open>'r\<close> of the remote side. \<open>Inl\<close> is a rejected promise.
\<close>

record 'r S3Client =
  on_HeadObject :: "string \<Rightarrow> string \<Rightarrow> 'r \<Rightarrow> (string + HeadObjectCommandOutput) \<times> 'r"
  on_PutObject :: "string \<Rightarrow> string \<Rightarrow> bytes \<Rightarrow> string \<Rightarrow> 'r \<Rightarrow> (string + unit) \<times> 'r"
  on_Upload :: "nat \<Rightarrow> nat \<Rightarrow> bool \<Rightarrow> string \<Rightarrow> string \<Rightarrow> bytes \<Rightarrow> string \<Rightarrow> 'r
    \<Rightarrow> (string + unit) \<times> 'r"
  on_ListObjectsV2 :: "ListObjectsV2CommandInput \<Rightarrow> 'r
    \<Rightarrow> (string + ListObjectsV2CommandOutput) \<times> 'r"
  on_GetObject :: "string \<Rightarrow> string \<Rightarrow> 'r \<Rightarrow> (string + body) \<times> 'r"
  on_DeleteObject :: "string \<Rightarrow> string option \<Rightarrow> 'r \<Rightarrow> (string + unit) \<times> 'r"
  on_HeadBucket :: "string \<Rightarrow> 'r \<Rightarrow> (string + HeadBucketCommandOutput option) \<times> 'r"

text \<open>
  The local side, with state \<open>'l\<close>. \<open>vault.adapter\<close> gives \<open>readBinary\<close> and \<open>writeBinary\<close>
  (path, data, mtime).
\<close>

record 'l Vault =
  readBinary :: "string \<Rightarrow> 'l \<Rightarrow> (string + bytes) \<times> 'l"
  writeBinary :: "string \<Rightarrow> bytes \<Rightarrow> int \<Rightarrow> 'l \<Rightarrow> (string + unit) \<times> 'l"

text \<open>
  The imports the source file does not define, taken as parameters: \<open>mkdirpInVault\<close>,
  \<open>arrayBufferToBuffer\<close> and \<open>bufferToArrayBuffer\<close> of ./misc, \<open>encryptArrayBuffer\<close> and
  \<open>decryptArrayBuffer\<close> of ./encrypt (they may draw random salt, so they act on the local
  state), \<open>lookup\<close> and \<open>contentType\<close> of the package mime-types. The two mime functions
  return a string or \<open>false\<close> (\<open>None\<close>).
\<close>

record 'l module_imports =
  mkdirpInVault :: "string \<Rightarrow> 'l \<Rightarrow> (string + unit) \<times> 'l"
  encryptArrayBuffer :: "bytes \<Rightarrow> string \<Rightarrow> 'l \<Rightarrow> (string + bytes) \<times> 'l"
  decryptArrayBuffer :: "bytes \<Rightarrow> string \<Rightarrow> 'l \<Rightarrow> (string + bytes) \<times> 'l"
  arrayBufferToBuffer :: "bytes \<Rightarrow> bytes"
  bufferToArrayBuffer :: "bytes \<Rightarrow> bytes"
  mime_lookup :: "string \<Rightarrow> string option"
  mime_contentType :: "string \<Rightarrow> string option"

record ('r, 'l) world =
  remote :: 'r
  local :: 'l
  requests :: "request list"

type_synonym ('a, 'r, 'l) async = "('r, 'l) world \<Rightarrow> (exn + 'a) \<times> ('r, 'l) world"

subsection \<open>Plumbing: await, send, calls to the local side\<close>

definition resolve :: "'a \<Rightarrow> ('a, 'r, 'l) async" where
  "resolve x w = (Inr x, w)"

definition reject :: "exn \<Rightarrow> ('a, 'r, 'l) async" where
  "reject e w = (Inl e, w)"

text \<open>\<open>const x = await m; k x\<close>: a rejection of \<open>m\<close> leaves the function at once.\<close>

definition await :: "('a, 'r, 'l) async \<Rightarrow> ('a \<Rightarrow> ('b, 'r, 'l) async) \<Rightarrow> ('b, 'r, 'l) async" where
  "await m k w = (case m w of (Inl e, w1) \<Rightarrow> (Inl e, w1) | (Inr x, w1) \<Rightarrow> k x w1)"

text \<open>A collaborator's rejection, as the exception the awaiting function sees.\<close>

fun thrown :: "string + 'a \<Rightarrow> exn + 'a" where
  "thrown (Inl m) = Inl (External m)"
| "thrown (Inr x) = Inr x"

text \<open>\<open>s3Client.send(cmd)\<close>: the command is logged, the service answers and moves on.\<close>

definition send :: "request \<Rightarrow> ('r \<Rightarrow> (string + 'a) \<times> 'r) \<Rightarrow> ('a, 'r, 'l) async" where
  "send cmd answer w =
     (case answer (remote w) of
        (res, r1) \<Rightarrow> (thrown res, w\<lparr>remote := r1, requests := requests w @ [cmd]\<rparr>))"

definition on_local :: "('l \<Rightarrow> (string + 'a) \<times> 'l) \<Rightarrow> ('a, 'r, 'l) async" where
  "on_local f w = (case f (local w) of (res, l1) \<Rightarrow> (thrown res, w\<lparr>local := l1\<rparr>))"

text \<open>The commands sent since the world \<open>w\<close>, in a later world \<open>w1\<close>.\<close>

definition issued :: "('r, 'l) world \<Rightarrow> ('r, 'l) world \<Rightarrow> request list" where
  "issued w w1 = drop (length (requests w)) (requests w1)"

text \<open>JavaScript's \<open>s.endsWith(t)\<close>.\<close>

definition endsWith :: "string \<Rightarrow> string \<Rightarrow> bool" where
  "endsWith s t = (length t \<le> length s \<and> drop (length s - length t) s = t)"

text \<open>\<open>x || d\<close> on a string-or-false \<open>x\<close>: \<open>false\<close> and the empty string are falsy.\<close>

fun or_else :: "string option \<Rightarrow> string \<Rightarrow> string" where
  "or_else None d = d"
| "or_else (Some s) d = (if s = [] then d else s)"

subsection \<open>Conversions to RemoteItem\<close>

text \<open>\<open>x.LastModified.valueOf()\<close> throws a TypeError when \<open>LastModified\<close> is undefined.\<close>

definition fromS3ObjectToRemoteItem :: "S3ObjectType \<Rightarrow> exn + RemoteItem" where
  "fromS3ObjectToRemoteItem x =
     (case LastModified x of
        None \<Rightarrow> Inl (TypeError ''Cannot read properties of undefined (reading valueOf)'')
      | Some t \<Rightarrow> Inr \<lparr>key = Key x, lastModified = t, size = Size x, remoteType = ''s3'',
          etag = ETag x\<rparr>)"

definition fromS3HeadObjectToRemoteItem :: "string \<Rightarrow> HeadObjectCommandOutput \<Rightarrow> exn + RemoteItem" where
  "fromS3HeadObjectToRemoteItem k x =
     (case ho_LastModified x of
        None \<Rightarrow> Inl (TypeError ''Cannot read properties of undefined (reading valueOf)'')
      | Some t \<Rightarrow> Inr \<lparr>key = Some k, lastModified = t, size = ho_ContentLength x,
          remoteType = ''s3'', etag = ho_ETag x\<rparr>)"

text \<open>\<open>xs.map(f)\<close> where \<open>f\<close> may throw: the first throw ends the map.\<close>

fun map_throwing :: "('a \<Rightarrow> exn + 'b) \<Rightarrow> 'a list \<Rightarrow> exn + 'b list" where
  "map_throwing f [] = Inr []"
| "map_throwing f (x # xs) =
     (case f x of
        Inl e \<Rightarrow> Inl e
      | Inr y \<Rightarrow> (case map_throwing f xs of Inl e \<Rightarrow> Inl e | Inr ys \<Rightarrow> Inr (y # ys)))"

subsection \<open>getRemoteMeta\<close>

definition getRemoteMeta :: "'r S3Client \<Rightarrow> S3Config \<Rightarrow> string \<Rightarrow> (RemoteItem, 'r, 'l) async" where
  "getRemoteMeta s3Client s3Config fileOrFolderPath =
     await (send (HeadObjectCommand (s3BucketName s3Config) fileOrFolderPath)
              (on_HeadObject s3Client (s3BucketName s3Config) fileOrFolderPath))
       (\<lambda>res w. (fromS3HeadObjectToRemoteItem fileOrFolderPath res, w))"

subsection \<open>listFromRemote\<close>

text \<open>
  The \<open>do ... while (isTruncated)\<close> loop, one call per iteration. Its variables are
  \<open>confCmd\<close>, \<open>contents\<close> and \<open>continuationToken\<close>; \<open>isTruncated\<close> is assigned in every
  iteration before it is read. A value is truthy when it is \<open>true\<close>; \<open>undefined\<close> is not.
  The loop may not return: the result is an option.
\<close>

fun truthy :: "bool option \<Rightarrow> bool" where
  "truthy None = False"
| "truthy (Some b) = b"

partial_function (option) listFromRemote_loop ::
  "'r S3Client \<Rightarrow> ListObjectsV2CommandInput \<Rightarrow> S3ObjectType list \<Rightarrow> string option
    \<Rightarrow> ('r, 'l) world \<Rightarrow> ((exn + S3ObjectType list) \<times> ('r, 'l) world) option" where
  "listFromRemote_loop s3Client confCmd contents continuationToken w =
     (case send (ListObjectsV2Command confCmd) (on_ListObjectsV2 s3Client confCmd) w of
        (Inl e, w1) \<Rightarrow> Some (Inl e, w1)
      | (Inr rsp, w1) \<Rightarrow>
          if httpStatusCode (lo_metadata rsp) \<noteq> Some 200
          then Some (Inl (Error ''some thing bad while listing remote!''), w1)
          else (case Contents rsp of
                  None \<Rightarrow> Some (Inr contents, w1)
                | Some cs \<Rightarrow>
                    let contents1 = contents @ cs;
                        isTruncated = IsTruncated rsp;
                        confCmd1 = confCmd\<lparr>ContinuationToken := NextContinuationToken rsp\<rparr>
                    in if truthy isTruncated
                          \<and> (continuationToken = None \<or> continuationToken = Some '''')
                       then Some (Inl (Error
                              ''isTruncated is true but no continuationToken provided''), w1)
                       else if truthy isTruncated
                       then listFromRemote_loop s3Client confCmd1 contents1 continuationToken w1
                       else Some (Inr contents1, w1)))"

declare listFromRemote_loop.simps [code]

definition listFromRemote ::
  "'r S3Client \<Rightarrow> S3Config \<Rightarrow> string option
    \<Rightarrow> ('r, 'l) world \<Rightarrow> ((exn + RemoteItem list) \<times> ('r, 'l) world) option" where
  "listFromRemote s3Client s3Config prefix w =
     (let confCmd = \<lparr>Bucket = s3BucketName s3Config, Prefix = prefix, ContinuationToken = None\<rparr>
      in case listFromRemote_loop s3Client confCmd [] (Some '''') w of
           None \<Rightarrow> None
         | Some (Inl e, w1) \<Rightarrow> Some (Inl e, w1)
         | Some (Inr contents, w1) \<Rightarrow> Some (map_throwing fromS3ObjectToRemoteItem contents, w1))"

subsection \<open>uploadToRemote\<close>

definition DEFAULT_CONTENT_TYPE :: string where
  "DEFAULT_CONTENT_TYPE = ''application/octet-stream''"

definition recursive_upload_message :: string where
  "recursive_upload_message =
     ''upload function doesn't implement recursive function yet!''"

definition uploadToRemote ::
  "'l module_imports \<Rightarrow> 'r S3Client \<Rightarrow> S3Config \<Rightarrow> string \<Rightarrow> 'l Vault \<Rightarrow> bool \<Rightarrow> string
    \<Rightarrow> string \<Rightarrow> (RemoteItem, 'r, 'l) async" where
  "uploadToRemote imp s3Client s3Config fileOrFolderPath vault isRecursively password
      remoteEncryptedKey =
     (let uploadFile = (if password \<noteq> '''' then remoteEncryptedKey else fileOrFolderPath);
          isFolder = endsWith fileOrFolderPath ''/''
      in if isFolder \<and> isRecursively then reject (Error recursive_upload_message)
         else if isFolder \<and> \<not> isRecursively then
           (let contentType = DEFAULT_CONTENT_TYPE
            in await (send (PutObjectCommand (s3BucketName s3Config) uploadFile [] contentType)
                        (on_PutObject s3Client (s3BucketName s3Config) uploadFile [] contentType))
                 (\<lambda>_. getRemoteMeta s3Client s3Config uploadFile))
         else
           (let contentType =
                  (if password = ''''
                   then or_else (mime_contentType imp
                          (or_else (mime_lookup imp fileOrFolderPath) DEFAULT_CONTENT_TYPE))
                          DEFAULT_CONTENT_TYPE
                   else DEFAULT_CONTENT_TYPE)
            in await (on_local (readBinary vault fileOrFolderPath)) (\<lambda>localContent.
               await (if password \<noteq> ''''
                      then on_local (encryptArrayBuffer imp localContent password)
                      else resolve localContent) (\<lambda>remoteContent.
               let body = arrayBufferToBuffer imp remoteContent
               in await (send (Upload 20 5242880 False (s3BucketName s3Config) uploadFile body
                                 contentType)
                           (on_Upload s3Client 20 5242880 False (s3BucketName s3Config)
                              uploadFile body contentType))
                    (\<lambda>_. getRemoteMeta s3Client s3Config uploadFile)))))"

subsection \<open>downloadFromRemote\<close>

text \<open>
  A \<open>Readable\<close> is its chunks and, when the stream emits \<open>error\<close>, what it emits; the other
  two shapes are read by one call that may reject. \<open>OtherBody s\<close> is a body of no
  supported type, \<open>s\<close> its rendering in the template string.
\<close>

fun getObjectBodyToArrayBuffer :: "'l module_imports \<Rightarrow> body \<Rightarrow> (bytes, 'r, 'l) async" where
  "getObjectBodyToArrayBuffer imp (Readable chunks None) =
     resolve (bufferToArrayBuffer imp (concat chunks))"
| "getObjectBodyToArrayBuffer imp (Readable chunks (Some err)) = reject (External err)"
| "getObjectBodyToArrayBuffer imp (ReadableStream r) = (\<lambda>w. (thrown r, w))"
| "getObjectBodyToArrayBuffer imp (Blob r) = (\<lambda>w. (thrown r, w))"
| "getObjectBodyToArrayBuffer imp (OtherBody s) =
     reject (TypeError (''The type of '' @ s @ '' is not one of the supported types''))"

definition downloadFromRemoteRaw ::
  "'l module_imports \<Rightarrow> 'r S3Client \<Rightarrow> S3Config \<Rightarrow> string \<Rightarrow> (bytes, 'r, 'l) async" where
  "downloadFromRemoteRaw imp s3Client s3Config fileOrFolderPath =
     await (send (GetObjectCommand (s3BucketName s3Config) fileOrFolderPath)
              (on_GetObject s3Client (s3BucketName s3Config) fileOrFolderPath))
       (\<lambda>data. getObjectBodyToArrayBuffer imp data)"

definition downloadFromRemote ::
  "'l module_imports \<Rightarrow> 'r S3Client \<Rightarrow> S3Config \<Rightarrow> string \<Rightarrow> 'l Vault \<Rightarrow> int \<Rightarrow> string
    \<Rightarrow> string \<Rightarrow> (unit, 'r, 'l) async" where
  "downloadFromRemote imp s3Client s3Config fileOrFolderPath vault mtime password
      remoteEncryptedKey =
     (let isFolder = endsWith fileOrFolderPath ''/''
      in await (on_local (mkdirpInVault imp fileOrFolderPath)) (\<lambda>_.
         if isFolder then resolve ()
         else
           (let downloadFile =
                  (if password \<noteq> '''' then remoteEncryptedKey else fileOrFolderPath)
            in await (downloadFromRemoteRaw imp s3Client s3Config downloadFile)
                 (\<lambda>remoteContent.
               await (if password \<noteq> ''''
                      then on_local (decryptArrayBuffer imp remoteContent password)
                      else resolve remoteContent) (\<lambda>localContent.
               on_local (writeBinary vault fileOrFolderPath localContent mtime))))))"

subsection \<open>deleteFromRemote\<close>

text \<open>
  \<open>x.Contents.forEach(async (element) => { await s3Client.send(...) })\<close>: \<open>forEach\<close> calls
  the callback on each element in turn; each call hands its command to the client and
  suspends, and \<open>forEach\<close> drops the promise it gets back. So \<open>deleteFromRemote\<close> returns
  with these commands handed over, in the order of the list, and none of them awaited: their
  answers (a rejection too) reach no one, and what they do to the service happens after
  the return, outside the world the function returns.
\<close>

definition fire :: "request \<Rightarrow> ('r, 'l) world \<Rightarrow> ('r, 'l) world" where
  "fire cmd w = w\<lparr>requests := requests w @ [cmd]\<rparr>"

fun forEach_delete :: "S3Config \<Rightarrow> RemoteItem list \<Rightarrow> ('r, 'l) world \<Rightarrow> ('r, 'l) world" where
  "forEach_delete s3Config [] w = w"
| "forEach_delete s3Config (element # rest) w =
     forEach_delete s3Config rest
       (fire (DeleteObjectCommand (s3BucketName s3Config) (key element)) w)"

definition deleteFromRemote ::
  "'r S3Client \<Rightarrow> S3Config \<Rightarrow> string \<Rightarrow> string \<Rightarrow> string
    \<Rightarrow> ('r, 'l) world \<Rightarrow> ((exn + unit) \<times> ('r, 'l) world) option" where
  "deleteFromRemote s3Client s3Config fileOrFolderPath password remoteEncryptedKey w =
     (if fileOrFolderPath = ''/'' then Some (Inr (), w)
      else
        (let remoteFileName =
               (if password \<noteq> '''' then remoteEncryptedKey else fileOrFolderPath)
         in case send (DeleteObjectCommand (s3BucketName s3Config) (Some remoteFileName))
                   (on_DeleteObject s3Client (s3BucketName s3Config) (Some remoteFileName)) w of
              (Inl e, w1) \<Rightarrow> Some (Inl e, w1)
            | (Inr _, w1) \<Rightarrow>
                if endsWith fileOrFolderPath ''/'' \<and> password = '''' then
                  (case listFromRemote s3Client s3Config (Some fileOrFolderPath) w1 of
                     None \<Rightarrow> None
                   | Some (Inl e, w2) \<Rightarrow> Some (Inl e, w2)
                   | Some (Inr x, w2) \<Rightarrow> Some (Inr (), forEach_delete s3Config x w2))
                else if endsWith fileOrFolderPath ''/'' \<and> password \<noteq> '''' then
                  Some (Inr (), w1)
                else Some (Inr (), w1)))"

subsection \<open>checkConnectivity\<close>

text \<open>\<open>try { m } catch (err) { h err }\<close>\<close>

definition try_catch ::
  "('a, 'r, 'l) async \<Rightarrow> (exn \<Rightarrow> ('a, 'r, 'l) async) \<Rightarrow> ('a, 'r, 'l) async" where
  "try_catch m h w = (case m w of (Inl e, w1) \<Rightarrow> h e w1 | (Inr x, w1) \<Rightarrow> (Inr x, w1))"

definition checkConnectivity :: "'r S3Client \<Rightarrow> S3Config \<Rightarrow> (bool, 'r, 'l) async" where
  "checkConnectivity s3Client s3Config =
     try_catch
       (await (send (HeadBucketCommand (s3BucketName s3Config))
                 (on_HeadBucket s3Client (s3BucketName s3Config))) (\<lambda>results.
          case results of
            None \<Rightarrow> resolve False
          | Some r \<Rightarrow>
              (case hb_metadata r of
                 None \<Rightarrow> resolve False
               | Some m \<Rightarrow>
                   (case httpStatusCode m of
                      None \<Rightarrow> resolve False
                    | Some code \<Rightarrow> resolve (code = 200)))))
       (\<lambda>err. resolve False)"

section \<open>Vocabulary of the properties\<close>

text \<open>The request names exactly the object key \<open>k\<close>. Listing and the bucket probe name none.\<close>

fun keyed_by :: "string \<Rightarrow> request \<Rightarrow> bool" where
  "keyed_by k (HeadObjectCommand b k1) = (k1 = k)"
| "keyed_by k (PutObjectCommand b k1 body ct) = (k1 = k)"
| "keyed_by k (Upload q p l b k1 body ct) = (k1 = k)"
| "keyed_by k (ListObjectsV2Command inp) = False"
| "keyed_by k (GetObjectCommand b k1) = (k1 = k)"
| "keyed_by k (DeleteObjectCommand b k1) = (k1 = Some k)"
| "keyed_by k (HeadBucketCommand b) = False"

text \<open>The content types of the writes (put and multipart upload) among some requests.\<close>

fun sent_content_types :: "request list \<Rightarrow> string list" where
  "sent_content_types [] = []"
| "sent_content_types (PutObjectCommand b k body ct # rs) = ct # sent_content_types rs"
| "sent_content_types (Upload q p l b k body ct # rs) = ct # sent_content_types rs"
| "sent_content_types (r # rs) = sent_content_types rs"

text \<open>
  The content type of a file upload as C9 words it: without a password the MIME type
  looked up for the path, the generic binary type when the lookup fails; with a password
  the generic binary type.
\<close>

definition claimed_content_type :: "'l module_imports \<Rightarrow> string \<Rightarrow> string \<Rightarrow> string" where
  "claimed_content_type imp path password =
     (if password = '''' then
        (case mime_lookup imp path of
           None \<Rightarrow> ''application/octet-stream''
         | Some t \<Rightarrow> t)
      else ''application/octet-stream'')"

text \<open>
  The content type lines 129 to 135 of the source compute: without a password
  \<open>mime.contentType(mime.lookup(path) || D) || D\<close>, where \<open>D\<close> is the generic binary type;
  with a password \<open>D\<close>.
\<close>

definition upload_content_type :: "'l module_imports \<Rightarrow> string \<Rightarrow> string \<Rightarrow> string" where
  "upload_content_type imp path password =
     (if password = ''''
      then or_else (mime_contentType imp
             (or_else (mime_lookup imp path) ''application/octet-stream''))
             ''application/octet-stream''
      else ''application/octet-stream'')"

text \<open>The HTTP status a bucket probe reports, if it reports one at all.\<close>

fun probe_status :: "string + HeadBucketCommandOutput option \<Rightarrow> int option" where
  "probe_status (Inl err) = None"
| "probe_status (Inr None) = None"
| "probe_status (Inr (Some results)) =
     (case hb_metadata results of None \<Rightarrow> None | Some m \<Rightarrow> httpStatusCode m)"

text \<open>The objects a listing response carries; none without a contents field.\<close>

definition listed_objects :: "ListObjectsV2CommandOutput \<Rightarrow> S3ObjectType list" where
  "listed_objects rsp = (case Contents rsp of None \<Rightarrow> [] | Some cs \<Rightarrow> cs)"

text \<open>
  What \<open>listFromRemote\<close> makes of the answer to its request (shown below to be the whole
  of it: \<open>listFromRemote_eq\<close>).
\<close>

definition list_outcome :: "string + ListObjectsV2CommandOutput \<Rightarrow> exn + RemoteItem list" where
  "list_outcome res =
     (case res of
        Inl m \<Rightarrow> Inl (External m)
      | Inr rsp \<Rightarrow>
          if httpStatusCode (lo_metadata rsp) \<noteq> Some 200
          then Inl (Error ''some thing bad while listing remote!'')
          else (case Contents rsp of
                  None \<Rightarrow> Inr []
                | Some cs \<Rightarrow>
                    if truthy (IsTruncated rsp)
                    then Inl (Error ''isTruncated is true but no continuationToken provided'')
                    else map_throwing fromS3ObjectToRemoteItem cs))"

text \<open>
  The computation only appends to the log of requests, and every command it appends
  satisfies \<open>P\<close>.
\<close>

definition sends :: "(request \<Rightarrow> bool) \<Rightarrow> ('a, 'r, 'l) async \<Rightarrow> bool" where
  "sends P m = (\<forall>w. \<exists>new. requests (snd (m w)) = requests w @ new \<and> list_all P new)"

section \<open>A small service to run the module against\<close>

text \<open>
  A listing cut into the given pages: the request without a token gets the first page, the
  token of page \<open>i\<close> is \<open>i\<close> letters long, and every page but the last is truncated and
  carries the token of the next. A page beyond the last has no contents field. The state of
  the service counts the commands it has answered.
\<close>

definition serve_page :: "S3ObjectType list list \<Rightarrow> ListObjectsV2CommandInput
    \<Rightarrow> ListObjectsV2CommandOutput" where
  "serve_page pages inp =
     (let i = (case ContinuationToken inp of None \<Rightarrow> 0 | Some t \<Rightarrow> length t)
      in \<lparr>lo_metadata = \<lparr>httpStatusCode = Some 200\<rparr>,
          Contents = (if i < length pages then Some (pages ! i) else None),
          IsTruncated = Some (Suc i < length pages),
          NextContinuationToken =
            (if Suc i < length pages then Some (replicate (Suc i) CHR ''t'') else None)\<rparr>)"

definition paged_client :: "S3ObjectType list list \<Rightarrow> nat S3Client" where
  "paged_client pages =
     \<lparr>on_HeadObject = (\<lambda>b k r. (Inr \<lparr>ho_LastModified = Some 0, ho_ContentLength = Some 2,
         ho_ETag = None\<rparr>, Suc r)),
      on_PutObject = (\<lambda>b k body ct r. (Inr (), Suc r)),
      on_Upload = (\<lambda>q p l b k body ct r. (Inr (), Suc r)),
      on_ListObjectsV2 = (\<lambda>inp r. (Inr (serve_page pages inp), Suc r)),
      on_GetObject = (\<lambda>b k r. (Inr (Blob (Inr [1, 2, 3])), Suc r)),
      on_DeleteObject = (\<lambda>b k r. (Inr (), Suc r)),
      on_HeadBucket = (\<lambda>b r. (Inr (Some \<lparr>hb_metadata = Some \<lparr>httpStatusCode = Some 200\<rparr>\<rparr>),
         Suc r))\<rparr>"

text \<open>A service whose listing always answers with the one given response.\<close>

definition answering_client :: "ListObjectsV2CommandOutput \<Rightarrow> nat S3Client" where
  "answering_client rsp = (paged_client [])\<lparr>on_ListObjectsV2 := (\<lambda>inp r. (Inr rsp, Suc r))\<rparr>"

definition stub_config :: S3Config where
  "stub_config = \<lparr>s3Endpoint = ''s3.example.com'', s3Region = ''us-east-1'',
     s3AccessKeyID = ''id'', s3SecretAccessKey = ''secret'', s3BucketName = ''vault''\<rparr>"

definition stub_vault :: "nat Vault" where
  "stub_vault = \<lparr>readBinary = (\<lambda>p l. (Inr [104, 105], Suc l)),
     writeBinary = (\<lambda>p d m l. (Inr (), Suc l))\<rparr>"

text \<open>
  Imports to run against. The two mime functions answer as the package mime-types does on
  the paths and types used below: \<open>lookup\<close> knows the extension \<open>.md\<close> and no other here,
  and \<open>contentType\<close> adds the charset to \<open>text/markdown\<close> and leaves
  \<open>application/octet-stream\<close> as it is.
\<close>

definition stub_imports :: "nat module_imports" where
  "stub_imports =
     \<lparr>mkdirpInVault = (\<lambda>p l. (Inr (), Suc l)),
      encryptArrayBuffer = (\<lambda>bs pw l. (Inr (rev bs), Suc l)),
      decryptArrayBuffer = (\<lambda>bs pw l. (Inr (rev bs), Suc l)),
      arrayBufferToBuffer = (\<lambda>bs. bs),
      bufferToArrayBuffer = (\<lambda>bs. bs),
      mime_lookup = (\<lambda>p. if endsWith p ''.md'' then Some ''text/markdown'' else None),
      mime_contentType = (\<lambda>t. if t = ''text/markdown''
         then Some ''text/markdown; charset=utf-8'' else Some t)\<rparr>"

definition world0 :: "(nat, nat) world" where
  "world0 = \<lparr>remote = 0, local = 0, requests = []\<rparr>"

text \<open>The listing under \<open>notes/\<close>: 1037 objects in two pages, of 1000 and of 37.\<close>

definition note_object :: "nat \<Rightarrow> S3ObjectType" where
  "note_object i = \<lparr>Key = Some (''notes/'' @ replicate (Suc i) CHR ''n''),
     LastModified = Some (int i), Size = Some 1, ETag = None\<rparr>"

definition notes_pages :: "S3ObjectType list list" where
  "notes_pages = [map note_object [0..<1000], map note_object [1000..<1037]]"


text \<open>Single listing responses.\<close>

definition truncated_without_contents :: ListObjectsV2CommandOutput where
  "truncated_without_contents = \<lparr>lo_metadata = \<lparr>httpStatusCode = Some 200\<rparr>,
     Contents = None, IsTruncated = Some True, NextContinuationToken = None\<rparr>"

definition failed_without_contents :: ListObjectsV2CommandOutput where
  "failed_without_contents = \<lparr>lo_metadata = \<lparr>httpStatusCode = Some 500\<rparr>,
     Contents = None, IsTruncated = Some True, NextContinuationToken = None\<rparr>"

definition truncated_without_token :: ListObjectsV2CommandOutput where
  "truncated_without_token = \<lparr>lo_metadata = \<lparr>httpStatusCode = Some 200\<rparr>,
     Contents = Some [note_object 0], IsTruncated = Some True, NextContinuationToken = None\<rparr>"

definition page_with_repeated_key :: ListObjectsV2CommandOutput where
  "page_with_repeated_key = \<lparr>lo_metadata = \<lparr>httpStatusCode = Some 200\<rparr>,
     Contents = Some [note_object 0, note_object 0], IsTruncated = Some False,
     NextContinuationToken = None\<rparr>"

definition page_of_two :: ListObjectsV2CommandOutput where
  "page_of_two = \<lparr>lo_metadata = \<lparr>httpStatusCode = Some 200\<rparr>,
     Contents = Some [note_object 0, note_object 1], IsTruncated = Some False,
     NextContinuationToken = None\<rparr>"

text \<open>Services whose bucket probe is rejected, or answered with status 403.\<close>

definition unreachable_client :: "nat S3Client" where
  "unreachable_client =
     (paged_client [])\<lparr>on_HeadBucket := (\<lambda>b r. (Inl ''NetworkingError'', Suc r))\<rparr>"

definition forbidden_client :: "nat S3Client" where
  "forbidden_client = (paged_client [])\<lparr>on_HeadBucket :=
     (\<lambda>b r. (Inr (Some \<lparr>hb_metadata = Some \<lparr>httpStatusCode = Some 403\<rparr>\<rparr>), Suc r))\<rparr>"

section \<open>Facts about the plumbing\<close>

lemmas stub_defs = paged_client_def answering_client_def stub_config_def stub_vault_def
  stub_imports_def world0_def

lemmas run_defs = uploadToRemote_def downloadFromRemote_def downloadFromRemoteRaw_def
  deleteFromRemote_def getRemoteMeta_def await_def send_def on_local_def resolve_def reject_def
  issued_def endsWith_def fromS3HeadObjectToRemoteItem_def DEFAULT_CONTENT_TYPE_def Let_def


lemma keyed_by_unique: "keyed_by k r \<Longrightarrow> keyed_by k1 r \<Longrightarrow> k1 = k"
  by (cases r) auto

lemma getRemoteMeta_eq:
  "getRemoteMeta s3Client s3Config k w =
     (case thrown (fst (on_HeadObject s3Client (s3BucketName s3Config) k (remote w))) of
        Inl e \<Rightarrow> Inl e | Inr res \<Rightarrow> fromS3HeadObjectToRemoteItem k res,
      w\<lparr>remote := snd (on_HeadObject s3Client (s3BucketName s3Config) k (remote w)),
        requests := requests w @ [HeadObjectCommand (s3BucketName s3Config) k]\<rparr>)"
  by (simp add: getRemoteMeta_def await_def send_def split: prod.splits sum.splits)

subsection \<open>The module's own errors come from its own throw statements only\<close>







subsection \<open>What a computation sends\<close>

lemma sends_issued:
  assumes "sends P m"
  shows "list_all P (issued w (snd (m w)))"
proof -
  from assms obtain new where "requests (snd (m w)) = requests w @ new" and "list_all P new"
    unfolding sends_def by blast
  then show ?thesis by (simp add: issued_def)
qed

lemma sends_resolve: "sends P (resolve x)"
  by (simp add: sends_def resolve_def)

lemma sends_reject: "sends P (reject e)"
  by (simp add: sends_def reject_def)

lemma sends_on_local: "sends P (on_local f)"
  by (simp add: sends_def on_local_def split: prod.splits)

lemma sends_send: "P cmd \<Longrightarrow> sends P (send cmd answer)"
  by (simp add: sends_def send_def split: prod.splits)

lemma sends_await:
  assumes "sends P m" and "\<And>x. sends P (k x)"
  shows "sends P (await m k)"
  unfolding sends_def
proof
  fix w
  obtain res w1 where m: "m w = (res, w1)" by (cases "m w")
  from assms(1) obtain new1 where n1: "requests w1 = requests w @ new1" "list_all P new1"
    unfolding sends_def using m by (metis snd_conv)
  show "\<exists>new. requests (snd (await m k w)) = requests w @ new \<and> list_all P new"
  proof (cases res)
    case (Inl e)
    with m n1 show ?thesis by (simp add: await_def)
  next
    case (Inr x)
    from assms(2) [of x] obtain new2 where
      "requests (snd (k x w1)) = requests w1 @ new2" "list_all P new2"
      unfolding sends_def by blast
    with m n1 Inr show ?thesis by (simp add: await_def)
  qed
qed

lemma sends_getRemoteMeta:
  "P (HeadObjectCommand (s3BucketName s3Config) k) \<Longrightarrow>
     sends P (getRemoteMeta s3Client s3Config k)"
  by (simp add: sends_def getRemoteMeta_eq)

lemma sends_getObjectBodyToArrayBuffer: "sends P (getObjectBodyToArrayBuffer imp b)"
proof (cases b)
  case (Readable chunks err)
  then show ?thesis by (cases err) (simp_all add: sends_resolve sends_reject)
qed (simp_all add: sends_def reject_def)

lemmas sends_intros = sends_await sends_send sends_on_local sends_resolve sends_reject
  sends_getRemoteMeta sends_getObjectBodyToArrayBuffer

lemma list_all_keyed_by:
  "list_all (keyed_by k) rs \<Longrightarrow>
     \<forall>r\<in>set rs. keyed_by k r \<and> (p \<noteq> k \<longrightarrow> \<not> keyed_by p r)"
  by (auto simp add: list_all_iff dest: keyed_by_unique)

lemma sent_content_types_append:
  "sent_content_types (xs @ ys) = sent_content_types xs @ sent_content_types ys"
  by (induction xs rule: sent_content_types.induct) simp_all

lemma sent_content_types_subset:
  "list_all (\<lambda>r. set (sent_content_types [r]) \<subseteq> S) rs \<Longrightarrow> set (sent_content_types rs) \<subseteq> S"
proof (induction rs)
  case Nil
  then show ?case by simp
next
  case (Cons r rs)
  have "sent_content_types (r # rs) = sent_content_types [r] @ sent_content_types rs"
    using sent_content_types_append [of "[r]" rs] by simp
  with Cons show ?case by simp
qed

section \<open>listFromRemote\<close>

text \<open>
  \<open>continuationToken\<close> is initialised to the empty string and never assigned, so the test
  after a page comes down to \<open>isTruncated\<close> alone, and the loop body runs once.
\<close>

lemma listFromRemote_loop_once:
  "listFromRemote_loop s3Client confCmd contents (Some '''') w =
     (case send (ListObjectsV2Command confCmd) (on_ListObjectsV2 s3Client confCmd) w of
        (Inl e, w1) \<Rightarrow> Some (Inl e, w1)
      | (Inr rsp, w1) \<Rightarrow>
          if httpStatusCode (lo_metadata rsp) \<noteq> Some 200
          then Some (Inl (Error ''some thing bad while listing remote!''), w1)
          else (case Contents rsp of
                  None \<Rightarrow> Some (Inr contents, w1)
                | Some cs \<Rightarrow>
                    if truthy (IsTruncated rsp)
                    then Some (Inl (Error
                              ''isTruncated is true but no continuationToken provided''), w1)
                    else Some (Inr (contents @ cs), w1)))"
  by (subst listFromRemote_loop.simps)
     (simp add: Let_def split: prod.splits sum.splits option.splits)

lemma listFromRemote_eq:
  assumes "confCmd = \<lparr>Bucket = s3BucketName s3Config, Prefix = prefix, ContinuationToken = None\<rparr>"
  shows "listFromRemote s3Client s3Config prefix w =
     Some (list_outcome (fst (on_ListObjectsV2 s3Client confCmd (remote w))),
           w\<lparr>remote := snd (on_ListObjectsV2 s3Client confCmd (remote w)),
             requests := requests w @ [ListObjectsV2Command confCmd]\<rparr>)"
proof (cases "on_ListObjectsV2 s3Client confCmd (remote w)")
  case (Pair res r1)
  then show ?thesis
    using assms
    by (cases res)
       (simp_all add: listFromRemote_def listFromRemote_loop_once send_def list_outcome_def
          split: option.splits)
qed

text \<open>The listing always returns, after exactly one request.\<close>

lemma listFromRemote_returns:
  "\<exists>res w1. listFromRemote s3Client s3Config prefix w = Some (res, w1)
      \<and> issued w w1 = [ListObjectsV2Command
            \<lparr>Bucket = s3BucketName s3Config, Prefix = prefix, ContinuationToken = None\<rparr>]"
  by (simp add: listFromRemote_eq issued_def)

lemma notes_pages_length: "length notes_pages = 2"
  by (simp add: notes_pages_def)

lemma notes_pages_sizes:
  "length (notes_pages ! 0) = 1000 \<and> length (notes_pages ! 1) = 37
    \<and> length (concat notes_pages) = 1037"
  by (simp add: notes_pages_def)

lemma map_throwing_keys:
  "map_throwing fromS3ObjectToRemoteItem xs = Inr ys \<Longrightarrow> map key ys = map Key xs"
proof (induction xs arbitrary: ys)
  case Nil
  then show ?case by simp
next
  case (Cons x xs)
  then show ?case
    by (auto simp add: fromS3ObjectToRemoteItem_def split: sum.splits option.splits)
qed

text \<open>
  C1. A listing under \<open>notes/\<close> that the service cuts into two pages, of 1000 and of 37
  objects, the first page truncated and carrying the token of the second, should return
  the 1037 items. The module instead rejects with its missing-token error after the first
  page, although the token is there: it tests the variable \<open>continuationToken\<close>, which
  stays empty, not the token of the response.
\<close>

theorem listFromRemote_two_pages_throws:
  "length (notes_pages ! 0) = 1000 \<and> length (notes_pages ! 1) = 37
   \<and> length (concat notes_pages) = 1037
   \<and> NextContinuationToken (serve_page notes_pages
        \<lparr>Bucket = ''vault'', Prefix = Some ''notes/'', ContinuationToken = None\<rparr>) = Some ''t''
   \<and> listFromRemote (paged_client notes_pages) stub_config (Some ''notes/'') world0 =
       Some (Inl (Error ''isTruncated is true but no continuationToken provided''),
             \<lparr>remote = 1, local = 0, requests = [ListObjectsV2Command
               \<lparr>Bucket = ''vault'', Prefix = Some ''notes/'', ContinuationToken = None\<rparr>]\<rparr>)"
  using notes_pages_sizes
  by (simp add: listFromRemote_def listFromRemote_loop_once send_def paged_client_def
      serve_page_def stub_config_def world0_def notes_pages_length)

text \<open>
  A page that reports more pages and carries neither a token nor a contents field ends the
  listing without an error: C2 as stated fails here. The \<open>break\<close> on a missing contents
  field comes before the page's \<open>IsTruncated\<close> is read.
\<close>

theorem listFromRemote_truncated_without_contents_returns:
  "IsTruncated truncated_without_contents = Some True
   \<and> NextContinuationToken truncated_without_contents = None
   \<and> listFromRemote (answering_client truncated_without_contents) stub_config None world0 =
       Some (Inr [], \<lparr>remote = 1, local = 0, requests = [ListObjectsV2Command
               \<lparr>Bucket = ''vault'', Prefix = None, ContinuationToken = None\<rparr>]\<rparr>)"
  by (simp add: listFromRemote_eq list_outcome_def answering_client_def paged_client_def
      truncated_without_contents_def stub_config_def world0_def)

text \<open>
  C2, amended. If the page reports more pages and carries no continuation token (none, or
  the empty string), \<open>listFromRemote\<close> rejects with an error, having sent that one request,
  and neither loops nor returns a result, except for a page with status 200 and no
  contents field: that page ends the listing without an error, and adds no item. The
  error is the bad-status one when the status is not 200, the missing-token one otherwise.
\<close>

theorem listFromRemote_truncated_without_token:
  assumes "on_ListObjectsV2 s3Client
             \<lparr>Bucket = s3BucketName s3Config, Prefix = prefix, ContinuationToken = None\<rparr>
             (remote w) = (Inr rsp, r1)"
    and "IsTruncated rsp = Some True"
    and "NextContinuationToken rsp = None \<or> NextContinuationToken rsp = Some ''''"
  shows "listFromRemote s3Client s3Config prefix w =
     Some (if httpStatusCode (lo_metadata rsp) \<noteq> Some 200
           then Inl (Error ''some thing bad while listing remote!'')
           else if Contents rsp = None then Inr []
           else Inl (Error ''isTruncated is true but no continuationToken provided''),
           w\<lparr>remote := r1, requests := requests w @ [ListObjectsV2Command
             \<lparr>Bucket = s3BucketName s3Config, Prefix = prefix, ContinuationToken = None\<rparr>]\<rparr>)"
  using assms by (auto simp add: listFromRemote_eq list_outcome_def)

theorem listFromRemote_truncated_without_token_witness:
  "listFromRemote (answering_client truncated_without_token) stub_config None world0 =
     Some (Inl (Error ''isTruncated is true but no continuationToken provided''),
           \<lparr>remote = 1, local = 0, requests = [ListObjectsV2Command
               \<lparr>Bucket = ''vault'', Prefix = None, ContinuationToken = None\<rparr>]\<rparr>)
   \<and> listFromRemote (answering_client failed_without_contents) stub_config None world0 =
     Some (Inl (Error ''some thing bad while listing remote!''),
           \<lparr>remote = 1, local = 0, requests = [ListObjectsV2Command
               \<lparr>Bucket = ''vault'', Prefix = None, ContinuationToken = None\<rparr>]\<rparr>)
   \<and> listFromRemote (answering_client truncated_without_contents) stub_config None world0 =
     Some (Inr [],
           \<lparr>remote = 1, local = 0, requests = [ListObjectsV2Command
               \<lparr>Bucket = ''vault'', Prefix = None, ContinuationToken = None\<rparr>]\<rparr>)"
  using listFromRemote_truncated_without_token
      [of "answering_client truncated_without_token" stub_config None world0
        truncated_without_token 1]
    listFromRemote_truncated_without_token
      [of "answering_client failed_without_contents" stub_config None world0
        failed_without_contents 1]
    listFromRemote_truncated_without_token
      [of "answering_client truncated_without_contents" stub_config None world0
        truncated_without_contents 1]
  by (simp add: answering_client_def paged_client_def truncated_without_token_def
      failed_without_contents_def truncated_without_contents_def stub_config_def world0_def)

text \<open>
  A page that lists the same key twice comes back as two items with that key: C3 as stated
  fails here. Nothing in the module compares keys.
\<close>

theorem listFromRemote_repeats_a_key:
  "listFromRemote (answering_client page_with_repeated_key) stub_config None world0 =
     Some (Inr [\<lparr>key = Some ''notes/n'', lastModified = 0, size = Some 1, remoteType = ''s3'',
                 etag = None\<rparr>,
                \<lparr>key = Some ''notes/n'', lastModified = 0, size = Some 1, remoteType = ''s3'',
                 etag = None\<rparr>],
           \<lparr>remote = 1, local = 0, requests = [ListObjectsV2Command
               \<lparr>Bucket = ''vault'', Prefix = None, ContinuationToken = None\<rparr>]\<rparr>)"
  by (simp add: listFromRemote_eq list_outcome_def answering_client_def paged_client_def
      page_with_repeated_key_def stub_config_def world0_def note_object_def
      fromS3ObjectToRemoteItem_def)

text \<open>
  C3, amended. When \<open>listFromRemote\<close> returns items, their keys are the keys of the objects
  of the page it received, in the same order and as often: no two items have the same key
  exactly when the page lists no key twice.
\<close>

theorem listFromRemote_keys_as_listed:
  assumes "on_ListObjectsV2 s3Client
             \<lparr>Bucket = s3BucketName s3Config, Prefix = prefix, ContinuationToken = None\<rparr>
             (remote w) = (Inr rsp, r1)"
    and "listFromRemote s3Client s3Config prefix w = Some (Inr items, w1)"
  shows "map key items = map Key (listed_objects rsp)
    \<and> distinct (map key items) = distinct (map Key (listed_objects rsp))"
proof -
  have "map key items = map Key (listed_objects rsp)"
    using assms
    by (auto simp add: listFromRemote_eq list_outcome_def listed_objects_def
        split: if_splits option.splits dest: map_throwing_keys)
  then show ?thesis by simp
qed

theorem listFromRemote_keys_as_listed_witness:
  "listFromRemote (answering_client page_of_two) stub_config None world0 =
     Some (Inr [\<lparr>key = Some ''notes/n'', lastModified = 0, size = Some 1, remoteType = ''s3'',
                 etag = None\<rparr>,
                \<lparr>key = Some ''notes/nn'', lastModified = 1, size = Some 1, remoteType = ''s3'',
                 etag = None\<rparr>],
           \<lparr>remote = 1, local = 0, requests = [ListObjectsV2Command
               \<lparr>Bucket = ''vault'', Prefix = None, ContinuationToken = None\<rparr>]\<rparr>)
   \<and> map Key (listed_objects page_of_two) = [Some ''notes/n'', Some ''notes/nn'']
   \<and> distinct (map Key (listed_objects page_of_two))"
proof -
  have answer: "on_ListObjectsV2 (answering_client page_of_two)
      \<lparr>Bucket = s3BucketName stub_config, Prefix = None, ContinuationToken = None\<rparr>
      (remote world0) = (Inr page_of_two, 1)"
    by (simp add: stub_defs)
  have run: "listFromRemote (answering_client page_of_two) stub_config None world0 =
     Some (Inr [\<lparr>key = Some ''notes/n'', lastModified = 0, size = Some 1, remoteType = ''s3'',
                 etag = None\<rparr>,
                \<lparr>key = Some ''notes/nn'', lastModified = 1, size = Some 1, remoteType = ''s3'',
                 etag = None\<rparr>],
           \<lparr>remote = 1, local = 0, requests = [ListObjectsV2Command
               \<lparr>Bucket = ''vault'', Prefix = None, ContinuationToken = None\<rparr>]\<rparr>)"
    by (simp add: listFromRemote_eq list_outcome_def stub_defs page_of_two_def note_object_def
        fromS3ObjectToRemoteItem_def)
  from listFromRemote_keys_as_listed [OF answer run] run show ?thesis by simp
qed

section \<open>deleteFromRemote\<close>

lemma deleteFromRemote_encrypted:
  assumes "password \<noteq> []" and "fileOrFolderPath \<noteq> ''/''"
  shows "deleteFromRemote s3Client s3Config fileOrFolderPath password remoteEncryptedKey w =
     Some (thrown (fst (on_DeleteObject s3Client (s3BucketName s3Config)
                     (Some remoteEncryptedKey) (remote w))),
           w\<lparr>remote := snd (on_DeleteObject s3Client (s3BucketName s3Config)
                     (Some remoteEncryptedKey) (remote w)),
             requests := requests w @
               [DeleteObjectCommand (s3BucketName s3Config) (Some remoteEncryptedKey)]\<rparr>)"
proof (cases "on_DeleteObject s3Client (s3BucketName s3Config) (Some remoteEncryptedKey)
    (remote w)")
  case (Pair res r1)
  then show ?thesis
    using assms by (cases res) (simp_all add: deleteFromRemote_def send_def)
qed

text \<open>The deletion always returns: the listing inside it does.\<close>

lemma deleteFromRemote_returns:
  "\<exists>res w1. deleteFromRemote s3Client s3Config fileOrFolderPath password remoteEncryptedKey w
     = Some (res, w1)"
  by (auto simp add: deleteFromRemote_def listFromRemote_eq Let_def
      split: prod.splits sum.splits)

text \<open>
  C4. Deleting the directory marker \<open>notes/\<close> with a password should end in an explicit
  error saying that this is not supported. The module instead deletes the one object under
  the encrypted key and returns normally; the branch for this case is empty, and the
  objects under the directory are neither listed nor deleted.
\<close>

theorem deleteFromRemote_encrypted_directory_returns:
  "deleteFromRemote (paged_client notes_pages) stub_config ''notes/'' ''pw'' ''ENC'' world0 =
     Some (Inr (), \<lparr>remote = 1, local = 0,
        requests = [DeleteObjectCommand ''vault'' (Some ''ENC'')]\<rparr>)"
  by (simp add: deleteFromRemote_def send_def paged_client_def stub_config_def world0_def
      endsWith_def)

text \<open>
  C6. Deleting the root path \<open>/\<close> returns at once, whatever the password and the encrypted
  key: the world is the one before the call, so no request was sent and the remote side is
  as it was.
\<close>

theorem deleteFromRemote_root_no_op:
  "deleteFromRemote s3Client s3Config ''/'' password remoteEncryptedKey w = Some (Inr (), w)"
  by (simp add: deleteFromRemote_def)

section \<open>uploadToRemote\<close>

lemma uploadToRemote_sends:
  assumes "\<And>b. P (HeadObjectCommand b
             (if password \<noteq> [] then remoteEncryptedKey else fileOrFolderPath))"
    and "\<And>b. endsWith fileOrFolderPath ''/'' \<Longrightarrow> P (PutObjectCommand b
             (if password \<noteq> [] then remoteEncryptedKey else fileOrFolderPath) []
             DEFAULT_CONTENT_TYPE)"
    and "\<And>b body. \<not> endsWith fileOrFolderPath ''/'' \<Longrightarrow> P (Upload 20 5242880 False b
             (if password \<noteq> [] then remoteEncryptedKey else fileOrFolderPath) body
             (if password = []
              then or_else (mime_contentType imp
                     (or_else (mime_lookup imp fileOrFolderPath) DEFAULT_CONTENT_TYPE))
                     DEFAULT_CONTENT_TYPE
              else DEFAULT_CONTENT_TYPE))"
  shows "sends P (uploadToRemote imp s3Client s3Config fileOrFolderPath vault isRecursively
           password remoteEncryptedKey)"
  unfolding uploadToRemote_def Let_def
  using assms by (auto intro!: sends_intros)



lemma code_content_type:
  "(if password = []
    then or_else (mime_contentType imp
           (or_else (mime_lookup imp path) DEFAULT_CONTENT_TYPE)) DEFAULT_CONTENT_TYPE
    else DEFAULT_CONTENT_TYPE) = upload_content_type imp path password"
  by (simp add: upload_content_type_def DEFAULT_CONTENT_TYPE_def)

text \<open>Once the file is read (and encrypted, under a password), the upload is sent.\<close>

lemma uploadToRemote_file_read:
  assumes "\<not> endsWith fileOrFolderPath ''/''"
    and "fst (readBinary vault fileOrFolderPath (local w)) = Inr localContent"
    and "password \<noteq> [] \<longrightarrow> \<not> isl (fst (encryptArrayBuffer imp localContent password
           (snd (readBinary vault fileOrFolderPath (local w)))))"
  shows "sent_content_types (issued w (snd (uploadToRemote imp s3Client s3Config
           fileOrFolderPath vault isRecursively password remoteEncryptedKey w))) =
         [upload_content_type imp fileOrFolderPath password]"
proof (cases "password = []")
  case True
  with assms(1,2) show ?thesis
    by (auto simp add: uploadToRemote_def Let_def await_def on_local_def send_def resolve_def
        getRemoteMeta_eq issued_def upload_content_type_def DEFAULT_CONTENT_TYPE_def
        split: prod.splits sum.splits)
next
  case False
  with assms(3) obtain ciphertext where
    "fst (encryptArrayBuffer imp localContent password
       (snd (readBinary vault fileOrFolderPath (local w)))) = Inr ciphertext"
    by (cases "fst (encryptArrayBuffer imp localContent password
       (snd (readBinary vault fileOrFolderPath (local w))))") simp_all
  with False assms(1,2) show ?thesis
    by (auto simp add: uploadToRemote_def Let_def await_def on_local_def send_def resolve_def
        getRemoteMeta_eq issued_def upload_content_type_def DEFAULT_CONTENT_TYPE_def
        split: prod.splits sum.splits)
qed

text \<open>
  C7. An upload to a directory-marker path with \<open>isRecursively\<close> set rejects with the
  module's declared error, and the world is the one before the call: nothing was sent,
  nothing was written.
\<close>

theorem uploadToRemote_recursive_directory_throws:
  "endsWith fileOrFolderPath ''/'' \<Longrightarrow>
   uploadToRemote imp s3Client s3Config fileOrFolderPath vault True password remoteEncryptedKey w
     = (Inl (Error ''upload function doesn't implement recursive function yet!''), w)"
  by (simp add: uploadToRemote_def reject_def recursive_upload_message_def)

theorem uploadToRemote_recursive_directory_throws_witness:
  "endsWith ''notes/'' ''/''
   \<and> uploadToRemote stub_imports (paged_client []) stub_config ''notes/'' stub_vault True '''' ''''
       world0
     = (Inl (Error ''upload function doesn't implement recursive function yet!''), world0)"
proof -
  have folder: "endsWith ''notes/'' ''/''" by (simp add: endsWith_def)
  from uploadToRemote_recursive_directory_throws [OF folder] folder show ?thesis by simp
qed

text \<open>
  A Markdown file uploaded without a password: the type looked up is \<open>text/markdown\<close>,
  the type sent is \<open>text/markdown; charset=utf-8\<close>. C9 as stated fails here. The source
  passes the looked-up type through \<open>mime.contentType\<close>, which writes the type as a header
  value and, as the package mime-types does for every text type, adds the charset.
\<close>

theorem uploadToRemote_sends_header_value:
  "mime_lookup stub_imports ''a.md'' = Some ''text/markdown''
   \<and> claimed_content_type stub_imports ''a.md'' '''' = ''text/markdown''
   \<and> sent_content_types (issued world0 (snd (uploadToRemote stub_imports (paged_client [])
        stub_config ''a.md'' stub_vault False '''' '''' world0)))
     = [''text/markdown; charset=utf-8'']"
  by (simp add: run_defs stub_defs claimed_content_type_def)

text \<open>
  C9, amended. In a file upload without a password, the content type sent to the remote
  is what \<open>mime.contentType\<close> makes of the MIME type looked up for the path (the header
  value of that type), and the generic binary type when \<open>contentType\<close> gives none; when
  the lookup fails, \<open>contentType\<close> is given the generic binary type, which it leaves as it
  is in the package. With a password the content type is always the generic binary type.
  No write carries another type, and the upload with this type is sent whenever the file
  is read and, under a password, encrypted.
\<close>

theorem uploadToRemote_content_type:
  assumes "\<not> endsWith fileOrFolderPath ''/''"
  shows "set (sent_content_types (issued w (snd (uploadToRemote imp s3Client s3Config
            fileOrFolderPath vault isRecursively password remoteEncryptedKey w))))
          \<subseteq> {upload_content_type imp fileOrFolderPath password}
     \<and> (fst (readBinary vault fileOrFolderPath (local w)) = Inr localContent
          \<and> (password \<noteq> '''' \<longrightarrow> \<not> isl (fst (encryptArrayBuffer imp localContent password
                 (snd (readBinary vault fileOrFolderPath (local w))))))
        \<longrightarrow> sent_content_types (issued w (snd (uploadToRemote imp s3Client s3Config
              fileOrFolderPath vault isRecursively password remoteEncryptedKey w)))
            = [upload_content_type imp fileOrFolderPath password])
     \<and> (password \<noteq> '''' \<longrightarrow>
          upload_content_type imp fileOrFolderPath password = ''application/octet-stream'')
     \<and> (password = '''' \<and> mime_lookup imp fileOrFolderPath = Some t \<and> t \<noteq> ''''
          \<and> mime_contentType imp t = Some c \<and> c \<noteq> ''''
        \<longrightarrow> upload_content_type imp fileOrFolderPath password = c)
     \<and> (password = '''' \<and> mime_lookup imp fileOrFolderPath = Some t \<and> t \<noteq> ''''
          \<and> mime_contentType imp t = None
        \<longrightarrow> upload_content_type imp fileOrFolderPath password = ''application/octet-stream'')
     \<and> (password = '''' \<and> mime_lookup imp fileOrFolderPath = None
          \<and> mime_contentType imp ''application/octet-stream''
              = Some ''application/octet-stream''
        \<longrightarrow> upload_content_type imp fileOrFolderPath password = ''application/octet-stream'')"
proof (intro conjI impI)
  let ?ct = "upload_content_type imp fileOrFolderPath password"
  have "sends (\<lambda>r. set (sent_content_types [r]) \<subseteq> {?ct}) (uploadToRemote imp s3Client
      s3Config fileOrFolderPath vault isRecursively password remoteEncryptedKey)"
    using assms by (intro uploadToRemote_sends) (simp_all add: code_content_type)
  then show "set (sent_content_types (issued w (snd (uploadToRemote imp s3Client s3Config
            fileOrFolderPath vault isRecursively password remoteEncryptedKey w)))) \<subseteq> {?ct}"
    by (intro sent_content_types_subset sends_issued)
next
  assume "fst (readBinary vault fileOrFolderPath (local w)) = Inr localContent
      \<and> (password \<noteq> '''' \<longrightarrow> \<not> isl (fst (encryptArrayBuffer imp localContent password
             (snd (readBinary vault fileOrFolderPath (local w))))))"
  then show "sent_content_types (issued w (snd (uploadToRemote imp s3Client s3Config
            fileOrFolderPath vault isRecursively password remoteEncryptedKey w)))
          = [upload_content_type imp fileOrFolderPath password]"
    using uploadToRemote_file_read [OF assms, of vault w localContent password imp]
    by simp
qed (simp_all add: upload_content_type_def)

theorem uploadToRemote_content_type_witness:
  "sent_content_types (issued world0 (snd (uploadToRemote stub_imports (paged_client [])
      stub_config ''a.md'' stub_vault False '''' '''' world0)))
     = [''text/markdown; charset=utf-8'']
   \<and> sent_content_types (issued world0 (snd (uploadToRemote stub_imports (paged_client [])
      stub_config ''a.bin'' stub_vault False '''' '''' world0)))
     = [''application/octet-stream'']
   \<and> sent_content_types (issued world0 (snd (uploadToRemote stub_imports (paged_client [])
      stub_config ''a.md'' stub_vault False ''pw'' ''ENC'' world0)))
     = [''application/octet-stream'']"
proof -
  have md: "\<not> endsWith ''a.md'' ''/''" and bin: "\<not> endsWith ''a.bin'' ''/''"
    by (simp_all add: endsWith_def)
  have types: "upload_content_type stub_imports ''a.md'' '''' = ''text/markdown; charset=utf-8''"
    "upload_content_type stub_imports ''a.bin'' '''' = ''application/octet-stream''"
    "upload_content_type stub_imports ''a.md'' ''pw'' = ''application/octet-stream''"
    by (simp_all add: upload_content_type_def stub_imports_def endsWith_def)
  from uploadToRemote_content_type [OF md, of world0 stub_imports "paged_client []"
        stub_config stub_vault False "''''" "''''" "[104, 105]"]
    uploadToRemote_content_type [OF bin, of world0 stub_imports "paged_client []"
        stub_config stub_vault False "''''" "''''" "[104, 105]"]
    uploadToRemote_content_type [OF md, of world0 stub_imports "paged_client []"
        stub_config stub_vault False "''pw''" "''ENC''" "[104, 105]"]
    types
  show ?thesis by (simp add: stub_vault_def stub_imports_def world0_def)
qed



section \<open>The remote key under encryption\<close>

lemma downloadFromRemote_sends:
  assumes "\<And>b. P (GetObjectCommand b
             (if password \<noteq> [] then remoteEncryptedKey else fileOrFolderPath))"
  shows "sends P (downloadFromRemote imp s3Client s3Config fileOrFolderPath vault mtime
           password remoteEncryptedKey)"
  unfolding downloadFromRemote_def downloadFromRemoteRaw_def Let_def
  using assms by (auto intro!: sends_intros)

text \<open>
  C5. With a non-empty password, every command that \<open>uploadToRemote\<close>,
  \<open>downloadFromRemote\<close> and \<open>deleteFromRemote\<close> send names the object by
  \<open>remoteEncryptedKey\<close>; none names it by the plaintext path (when the two differ), and
  none is a listing, which would carry the path as a prefix. \<open>deleteFromRemote\<close> returns.
\<close>

theorem encrypted_key_is_the_remote_key:
  assumes "password \<noteq> ''''"
  shows "(\<forall>r\<in>set (issued w (snd (uploadToRemote imp s3Client s3Config fileOrFolderPath vault
              isRecursively password remoteEncryptedKey w))).
            keyed_by remoteEncryptedKey r
            \<and> (fileOrFolderPath \<noteq> remoteEncryptedKey \<longrightarrow> \<not> keyed_by fileOrFolderPath r))
     \<and> (\<forall>r\<in>set (issued w (snd (downloadFromRemote imp s3Client s3Config fileOrFolderPath vault
              mtime password remoteEncryptedKey w))).
            keyed_by remoteEncryptedKey r
            \<and> (fileOrFolderPath \<noteq> remoteEncryptedKey \<longrightarrow> \<not> keyed_by fileOrFolderPath r))
     \<and> (\<exists>res w1. deleteFromRemote s3Client s3Config fileOrFolderPath password
              remoteEncryptedKey w = Some (res, w1)
          \<and> (\<forall>r\<in>set (issued w w1).
                keyed_by remoteEncryptedKey r
                \<and> (fileOrFolderPath \<noteq> remoteEncryptedKey \<longrightarrow> \<not> keyed_by fileOrFolderPath r)))"
proof (intro conjI)
  have "sends (keyed_by remoteEncryptedKey) (uploadToRemote imp s3Client s3Config
      fileOrFolderPath vault isRecursively password remoteEncryptedKey)"
    using assms by (intro uploadToRemote_sends) simp_all
  then show "\<forall>r\<in>set (issued w (snd (uploadToRemote imp s3Client s3Config fileOrFolderPath vault
              isRecursively password remoteEncryptedKey w))).
            keyed_by remoteEncryptedKey r
            \<and> (fileOrFolderPath \<noteq> remoteEncryptedKey \<longrightarrow> \<not> keyed_by fileOrFolderPath r)"
    by (intro list_all_keyed_by sends_issued)
next
  have "sends (keyed_by remoteEncryptedKey) (downloadFromRemote imp s3Client s3Config
      fileOrFolderPath vault mtime password remoteEncryptedKey)"
    using assms by (intro downloadFromRemote_sends) simp_all
  then show "\<forall>r\<in>set (issued w (snd (downloadFromRemote imp s3Client s3Config fileOrFolderPath
              vault mtime password remoteEncryptedKey w))).
            keyed_by remoteEncryptedKey r
            \<and> (fileOrFolderPath \<noteq> remoteEncryptedKey \<longrightarrow> \<not> keyed_by fileOrFolderPath r)"
    by (intro list_all_keyed_by sends_issued)
next
  show "\<exists>res w1. deleteFromRemote s3Client s3Config fileOrFolderPath password
              remoteEncryptedKey w = Some (res, w1)
          \<and> (\<forall>r\<in>set (issued w w1).
                keyed_by remoteEncryptedKey r
                \<and> (fileOrFolderPath \<noteq> remoteEncryptedKey \<longrightarrow> \<not> keyed_by fileOrFolderPath r))"
  proof (cases "fileOrFolderPath = ''/''")
    case True
    then show ?thesis by (simp add: deleteFromRemote_def issued_def)
  next
    case False
    with assms show ?thesis
      by (auto simp add: deleteFromRemote_encrypted issued_def)
  qed
qed

theorem encrypted_key_is_the_remote_key_witness:
  "issued world0 (snd (uploadToRemote stub_imports (paged_client []) stub_config ''a.md''
      stub_vault False ''pw'' ''ENC'' world0))
     = [Upload 20 5242880 False ''vault'' ''ENC'' [105, 104] ''application/octet-stream'',
        HeadObjectCommand ''vault'' ''ENC'']
   \<and> issued world0 (snd (downloadFromRemote stub_imports (paged_client []) stub_config ''a.md''
      stub_vault 0 ''pw'' ''ENC'' world0))
     = [GetObjectCommand ''vault'' ''ENC'']
   \<and> deleteFromRemote (paged_client []) stub_config ''a.md'' ''pw'' ''ENC'' world0
     = Some (Inr (), \<lparr>remote = 1, local = 0,
         requests = [DeleteObjectCommand ''vault'' (Some ''ENC'')]\<rparr>)
   \<and> list_all (\<lambda>r. keyed_by ''ENC'' r \<and> \<not> keyed_by ''a.md'' r)
        (issued world0 (snd (uploadToRemote stub_imports (paged_client []) stub_config
          ''a.md'' stub_vault False ''pw'' ''ENC'' world0)))"
proof -
  have pw: "''pw'' \<noteq> ''''" by simp
  have up: "issued world0 (snd (uploadToRemote stub_imports (paged_client []) stub_config ''a.md''
      stub_vault False ''pw'' ''ENC'' world0))
     = [Upload 20 5242880 False ''vault'' ''ENC'' [105, 104] ''application/octet-stream'',
        HeadObjectCommand ''vault'' ''ENC'']"
    by (simp add: run_defs stub_defs)
  have down: "issued world0 (snd (downloadFromRemote stub_imports (paged_client []) stub_config
      ''a.md'' stub_vault 0 ''pw'' ''ENC'' world0))
     = [GetObjectCommand ''vault'' ''ENC'']"
    by (simp add: run_defs stub_defs)
  have del: "deleteFromRemote (paged_client []) stub_config ''a.md'' ''pw'' ''ENC'' world0
     = Some (Inr (), \<lparr>remote = 1, local = 0,
         requests = [DeleteObjectCommand ''vault'' (Some ''ENC'')]\<rparr>)"
    by (simp add: run_defs stub_defs)
  from encrypted_key_is_the_remote_key [OF pw, of world0 stub_imports "paged_client []"
      stub_config "''a.md''" stub_vault False "''ENC''" 0] up down del
  show ?thesis by (simp add: list_all_iff)
qed

section \<open>checkConnectivity\<close>

text \<open>
  C8. \<open>checkConnectivity\<close> always resolves with a boolean: true exactly when the bucket
  probe was answered and the answer reports status 200; false when the probe was rejected,
  and when the answer, its metadata or its status is missing or the status is another one.
\<close>

theorem checkConnectivity_never_throws:
  "checkConnectivity s3Client s3Config w =
     (Inr (probe_status (fst (on_HeadBucket s3Client (s3BucketName s3Config) (remote w)))
             = Some 200),
      w\<lparr>remote := snd (on_HeadBucket s3Client (s3BucketName s3Config) (remote w)),
        requests := requests w @ [HeadBucketCommand (s3BucketName s3Config)]\<rparr>)"
proof (cases "on_HeadBucket s3Client (s3BucketName s3Config) (remote w)")
  case (Pair res r1)
  then show ?thesis
  proof (cases res)
    case (Inl m)
    with Pair show ?thesis
      by (simp add: checkConnectivity_def try_catch_def await_def send_def resolve_def)
  next
    case (Inr results)
    with Pair show ?thesis
      by (cases results)
         (simp_all add: checkConnectivity_def try_catch_def await_def send_def resolve_def
            split: option.splits)
  qed
qed

theorem checkConnectivity_never_throws_witness:
  "fst (checkConnectivity (paged_client []) stub_config world0) = Inr True
   \<and> fst (checkConnectivity unreachable_client stub_config world0) = Inr False
   \<and> fst (checkConnectivity forbidden_client stub_config world0) = Inr False"
  using checkConnectivity_never_throws [of "paged_client []" stub_config world0]
    checkConnectivity_never_throws [of unreachable_client stub_config world0]
    checkConnectivity_never_throws [of forbidden_client stub_config world0]
  by (simp add: stub_defs unreachable_client_def forbidden_client_def)

end
